theory Spec2Isabelle
  imports Main "HOL-Library.Sublist"
begin

section \<open>Values of the extension\<close>

text \<open>
  JavaScript strings are modelled as \<open>string\<close>, each \<open>char\<close> one byte of the UTF-8
  encoding of the text. The characters outside ASCII that the source uses in its
  notifications are spelled out as their UTF-8 bytes.
\<close>

definition warning_sign :: string where
  \<comment> \<open>U+26A0 U+FE0F\<close>
  "warning_sign = [CHR 0xE2, CHR 0x9A, CHR 0xA0, CHR 0xEF, CHR 0xB8, CHR 0x8F]"

definition check_mark :: string where
  \<comment> \<open>U+2705\<close>
  "check_mark = [CHR 0xE2, CHR 0x9C, CHR 0x85]"

text \<open>
  A value that is a string, \<open>null\<close> or \<open>undefined\<close> is a \<open>string option\<close>; it is truthy
  when it is a non-empty string.
\<close>

fun truthy :: "string option \<Rightarrow> bool" where
  "truthy None = False"
| "truthy (Some s) = (s \<noteq> [])"

record field =
  fieldName :: string
  fieldType :: string

record collection =
  collectionName :: string
  collection_id :: string  \<comment> \<open>the property \<open>_id\<close>\<close>
  collection_fields :: "field list"  \<comment> \<open>the property \<open>fields\<close>\<close>

text \<open>
  The body of a response to \<open>GET /collections/{apiKey}\<close>: the list of collections the
  service documents, or any other JSON value. \<open>JObj\<close> stands for every object that is
  not an array.
\<close>

datatype body =
    JUndefined
  | JNull
  | JBool bool
  | JNum int
  | JStr string
  | JArr "collection list"
  | JObj

fun truthy_body :: "body \<Rightarrow> bool" where
  "truthy_body JUndefined = False"
| "truthy_body JNull = False"
| "truthy_body (JBool b) = b"
| "truthy_body (JNum n) = (n \<noteq> 0)"
| "truthy_body (JStr s) = (s \<noteq> [])"
| "truthy_body (JArr cs) = True"
| "truthy_body JObj = True"

text \<open>
  The error an axios call rejects with: \<open>error.message\<close>, and
  \<open>error.response?.data?.message\<close> (\<open>None\<close> when the chain yields \<open>undefined\<close>).
\<close>

record axios_error =
  message :: string
  response_message :: "string option"

datatype 'a response = Rejected axios_error | Resolved 'a

record template =
  category :: string
  displayName :: string

text \<open>
  The created collection of a response to \<open>POST /templates/{apiKey}/create\<close>;
  \<open>documentCount\<close> is held as the text that template interpolation gives it.
\<close>

record created =
  name :: string
  documentCount :: string

text \<open>Messages the extension host posts to a panel.\<close>

datatype host_message =
    Endpoints collection string
  | Templates "template list"
  | Preview string
  | CreateSuccess "created option option"
  | Error string
  | EndpointsError string
  | NoApiKey
  | GetTemplates

text \<open>Messages a panel posts to the extension host.\<close>

datatype web_message =
    Login
  | GetTemplatesRequest
  | GetPreview string
  | CreateCollection string int
  | ShowInfo string
  | ShowError string

text \<open>
  Everything the extension does to the editor and to the network is recorded, in order,
  in a trace.
\<close>

datatype event =
    ShowErrorMessage string
  | ShowInformationMessage string
  | AxiosGet string nat
  | AxiosPost string string int nat
  | Fire
  | PostMessage host_message
  | ExecuteCommand string

record extension =
  apiKey :: "string option"  \<comment> \<open>\<open>provider.apiKey\<close>\<close>
  collections :: body  \<comment> \<open>\<open>provider.collections\<close>\<close>
  secrets :: "string option"  \<comment> \<open>\<open>context.secrets\<close> at \<open>mockman.apiKey\<close>\<close>
  configuration :: "string option"  \<comment> \<open>the setting \<open>mockman.apiKey\<close>\<close>
  panel :: bool  \<comment> \<open>whether the endpoints panel is open\<close>
  trace :: "event list"

definition emit :: "event \<Rightarrow> extension \<Rightarrow> extension" where
  "emit e st = st\<lparr>trace := trace st @ [e]\<rparr>"

section \<open>The tree data provider\<close>

text \<open>
  \<open>getApiKey\<close> returns the cached key when it is truthy; otherwise it reads the secret
  storage, caches what it read and returns it. Reading the secret storage is taken to
  resolve.
\<close>

definition getApiKey :: "extension \<Rightarrow> string option \<times> extension" where
  "getApiKey st =
     (if truthy (apiKey st) then (apiKey st, st)
      else (secrets st, st\<lparr>apiKey := secrets st\<rparr>))"

text \<open>The key behind a guard \<open>if (!apiKey)\<close>: \<open>None\<close> when the guard fires.\<close>

fun credential :: "string option \<Rightarrow> string option" where
  "credential None = None"
| "credential (Some s) = (if s = [] then None else Some s)"

definition collections_url :: "string \<Rightarrow> string" where
  "collections_url k = ''https://api.mockman.online/collections/'' @ k"

text \<open>
  \<open>refresh\<close>, given the outcome of the GET it may issue.
\<close>

definition refresh :: "body response \<Rightarrow> extension \<Rightarrow> extension" where
  "refresh http st =
     (case getApiKey st of (k, st1) \<Rightarrow>
        (case credential k of
           None \<Rightarrow> emit Fire (st1\<lparr>collections := JArr []\<rparr>)
         | Some key \<Rightarrow>
             let st2 = emit (AxiosGet (collections_url key) 5000) st1;
                 st3 = (case http of
                          Resolved data \<Rightarrow>
                            st2\<lparr>collections := (if truthy_body data then data else JArr [])\<rparr>
                        | Rejected error \<Rightarrow>
                            (emit (ShowErrorMessage
                                     (''Error fetching collections: '' @ message error)) st2)
                              \<lparr>collections := JArr []\<rparr>)
             in emit Fire st3))"

text \<open>\<open>a || b\<close> on a string that may be \<open>undefined\<close>.\<close>

fun or_else :: "string option \<Rightarrow> string \<Rightarrow> string" where
  "or_else None d = d"
| "or_else (Some s) d = (if s = [] then d else s)"

text \<open>
  The third copy of the provider in the source keeps the key in the configuration only,
  asks another host, sets no timeout (\<open>0\<close> below) and reports a missing key.
\<close>

definition refresh_legacy :: "body response \<Rightarrow> extension \<Rightarrow> extension" where
  "refresh_legacy http st =
     (case credential (configuration st) of
        None \<Rightarrow>
          emit Fire
            ((emit (ShowErrorMessage (warning_sign @ '' Please login first (MockMan: Login).''))
                st)\<lparr>collections := JArr []\<rparr>)
      | Some key \<Rightarrow>
          let st2 = emit (AxiosGet (''https://mockman-express.onrender.com/collections/'' @ key) 0)
                      st;
              st3 = (case http of
                       Resolved data \<Rightarrow>
                         st2\<lparr>collections := (if truthy_body data then data else JArr [])\<rparr>
                     | Rejected error \<Rightarrow>
                         (emit (ShowErrorMessage
                                  (''Error fetching collections: ''
                                   @ or_else (response_message error) (message error))) st2)
                           \<lparr>collections := JArr []\<rparr>)
          in emit Fire st3)"

subsection \<open>Tree items\<close>

datatype collapsibleState = TreeNone | Collapsed | Expanded

record command =
  command :: string
  title :: string
  arguments :: "collection list"

record treeItem =
  label :: string
  collapsible :: collapsibleState
  item_command :: "command option"
  iconPath :: string  \<comment> \<open>the identifier of the \<open>ThemeIcon\<close>\<close>
  collectionData :: "collection option"
  contextValue :: string

definition MockmanTreeItem ::
  "string \<Rightarrow> collapsibleState \<Rightarrow> command option \<Rightarrow> string \<Rightarrow> collection option \<Rightarrow> treeItem" where
  "MockmanTreeItem l cs cmd icon cd =
     \<lparr>label = l, collapsible = cs, item_command = cmd, iconPath = icon,
      collectionData = cd,
      contextValue = (case cd of Some c \<Rightarrow> ''collection'' | None \<Rightarrow> ''field'')\<rparr>"

definition collection_item :: "collection \<Rightarrow> treeItem" where
  "collection_item c =
     MockmanTreeItem (collectionName c) Collapsed
       (Some \<lparr>command = ''mockman.showEndpoints'', title = ''Show Endpoints'',
              arguments = [c]\<rparr>)
       ''file-submodule'' (Some c)"

definition field_item :: "field \<Rightarrow> treeItem" where
  "field_item f =
     MockmanTreeItem (fieldName f @ '' ('' @ fieldType f @ '')'') TreeNone None
       ''symbol-field'' None"

datatype error = TypeError

text \<open>
  \<open>getChildren\<close>: \<open>element\<close> is \<open>None\<close> at the root. A snapshot that is not an array has
  no \<open>map\<close> and no \<open>find\<close>, and the call throws.
\<close>

definition getChildren :: "treeItem option \<Rightarrow> extension \<Rightarrow> error + treeItem list" where
  "getChildren element st =
     (case element of
        None \<Rightarrow>
          (case collections st of
             JArr cs \<Rightarrow> Inr (map collection_item cs)
           | _ \<Rightarrow> Inl TypeError)
      | Some el \<Rightarrow>
          (case collections st of
             JArr cs \<Rightarrow>
               (case find (\<lambda>col. collectionName col = label el) cs of
                  None \<Rightarrow> Inr []
                | Some c \<Rightarrow> Inr (map field_item (collection_fields c)))
           | _ \<Rightarrow> Inl TypeError))"

section \<open>The URI callback handler\<close>

text \<open>
  The white space that \<open>String.prototype.trim\<close> removes (the WhiteSpace and
  LineTerminator code points of ECMAScript), each as its UTF-8 bytes.
\<close>

definition white_space :: "string list" where
  "white_space =
     [[CHR 0x09], [CHR 0x0A], [CHR 0x0B], [CHR 0x0C], [CHR 0x0D], [CHR 0x20],
      [CHR 0xC2, CHR 0xA0],
      [CHR 0xE1, CHR 0x9A, CHR 0x80],
      [CHR 0xE2, CHR 0x80, CHR 0x80], [CHR 0xE2, CHR 0x80, CHR 0x81],
      [CHR 0xE2, CHR 0x80, CHR 0x82], [CHR 0xE2, CHR 0x80, CHR 0x83],
      [CHR 0xE2, CHR 0x80, CHR 0x84], [CHR 0xE2, CHR 0x80, CHR 0x85],
      [CHR 0xE2, CHR 0x80, CHR 0x86], [CHR 0xE2, CHR 0x80, CHR 0x87],
      [CHR 0xE2, CHR 0x80, CHR 0x88], [CHR 0xE2, CHR 0x80, CHR 0x89],
      [CHR 0xE2, CHR 0x80, CHR 0x8A],
      [CHR 0xE2, CHR 0x80, CHR 0xA8], [CHR 0xE2, CHR 0x80, CHR 0xA9],
      [CHR 0xE2, CHR 0x80, CHR 0xAF],
      [CHR 0xE2, CHR 0x81, CHR 0x9F],
      [CHR 0xE3, CHR 0x80, CHR 0x80],
      [CHR 0xEF, CHR 0xBB, CHR 0xBF]]"

function trimStart :: "string \<Rightarrow> string" where
  "trimStart s =
     (case find (\<lambda>w. prefix w s) white_space of
        None \<Rightarrow> s
      | Some w \<Rightarrow> trimStart (drop (length w) s))"
  by pat_completeness auto
termination
proof (relation "measure length")
  show "wf (measure length)" by simp
next
  fix s w
  assume f: "find (\<lambda>w. prefix w s) white_space = Some w"
  then obtain i where "i < length white_space" and "w = white_space ! i"
    by (auto simp: find_Some_iff)
  then have "w \<in> set white_space" by simp
  then have "0 < length w" by (auto simp: white_space_def)
  moreover from f have "prefix w s" by (auto simp: find_Some_iff)
  then have "length w \<le> length s" by (rule prefix_length_le)
  ultimately show "(drop (length w) s, s) \<in> measure length" by (cases w) auto
qed

function trimEnd :: "string \<Rightarrow> string" where
  "trimEnd s =
     (case find (\<lambda>w. suffix w s) white_space of
        None \<Rightarrow> s
      | Some w \<Rightarrow> trimEnd (take (length s - length w) s))"
  by pat_completeness auto
termination
proof (relation "measure length")
  show "wf (measure length)" by simp
next
  fix s w
  assume f: "find (\<lambda>w. suffix w s) white_space = Some w"
  then obtain i where "i < length white_space" and "w = white_space ! i"
    by (auto simp: find_Some_iff)
  then have "w \<in> set white_space" by simp
  then have "0 < length w" by (auto simp: white_space_def)
  moreover from f have "suffix w s" by (auto simp: find_Some_iff)
  then have "length w \<le> length s" by (rule suffix_length_le)
  ultimately show "(take (length s - length w) s, s) \<in> measure length" by (cases w) auto
qed

declare trimStart.simps [simp del] trimEnd.simps [simp del]

definition trim :: "string \<Rightarrow> string" where
  "trim s = trimEnd (trimStart s)"

text \<open>The class \<open>[a-f0-9]\<close> and the test of \<open>/^[a-f0-9]+$/\<close>: one or more characters of the
  class from the start of the input to its end.\<close>

definition lower_hex :: "char \<Rightarrow> bool" where
  "lower_hex c = (c \<in> set ''abcdef0123456789'')"

definition hex_test :: "string \<Rightarrow> bool" where
  "hex_test s = (s \<noteq> [] \<and> list_all lower_hex s)"

record uri =
  uri_path :: string  \<comment> \<open>\<open>uri.path\<close>\<close>
  uri_query :: string  \<comment> \<open>\<open>uri.query\<close>\<close>

text \<open>
  \<open>URLSearchParams\<close> belongs to the platform: the handler takes the parser of a query
  string into its name-value pairs as a parameter, and \<open>get\<close> returns the value of the
  first pair with the name, or \<open>null\<close>.
\<close>

definition searchParams_get :: "(string \<times> string) list \<Rightarrow> string \<Rightarrow> string option" where
  "searchParams_get queryParams n = map_of queryParams n"

text \<open>
  The promise chain of an accepted key. \<open>store_error\<close> and \<open>update_error\<close> are \<open>None\<close>
  when \<open>secrets.store\<close> and the configuration's \<open>update\<close> resolve, and the message of
  the error they reject with otherwise; a rejected call writes nothing.
\<close>

definition save_key ::
  "string option \<Rightarrow> string option \<Rightarrow> body response \<Rightarrow> string \<Rightarrow> extension \<Rightarrow> extension" where
  "save_key store_error update_error http k st =
     (case store_error of
        Some m \<Rightarrow> emit (ShowErrorMessage (warning_sign @ '' Failed to save API Key: '' @ m)) st
      | None \<Rightarrow>
          let st1 = st\<lparr>secrets := Some (trim k)\<rparr>;
              st2 = st1\<lparr>apiKey := Some (trim k)\<rparr>
          in (case update_error of
                Some m \<Rightarrow>
                  emit (ShowErrorMessage (warning_sign @ '' Failed to save API Key: '' @ m)) st2
              | None \<Rightarrow>
                  let st3 = st2\<lparr>configuration := Some (trim k)\<rparr>;
                      st4 = emit (ShowInformationMessage
                                    (check_mark @ '' API Key saved successfully!'')) st3
                  in refresh http st4))"

definition handleUri ::
  "(string \<Rightarrow> (string \<times> string) list) \<Rightarrow> string option \<Rightarrow> string option \<Rightarrow> body response
     \<Rightarrow> uri \<Rightarrow> extension \<Rightarrow> extension" where
  "handleUri parse store_error update_error http u st =
     (if uri_path u = ''/callback'' then
        (case searchParams_get (parse (uri_query u)) ''apikey'' of
           None \<Rightarrow> emit (ShowErrorMessage (warning_sign @ '' Invalid API Key format.'')) st
         | Some k \<Rightarrow>
             if k \<noteq> [] \<and> 0 < length k \<and> hex_test k
             then save_key store_error update_error http k st
             else emit (ShowErrorMessage (warning_sign @ '' Invalid API Key format.'')) st)
      else emit (ShowErrorMessage (warning_sign @ '' Invalid redirect path.'')) st)"

section \<open>The endpoints panel\<close>

definition updateContent :: "collection \<Rightarrow> extension \<Rightarrow> extension" where
  "updateContent c st =
     (case getApiKey st of (k, st1) \<Rightarrow>
        (case credential k of
           None \<Rightarrow> st1
         | Some key \<Rightarrow>
             if \<not> panel st1 then st1
             else emit (PostMessage (Endpoints c key)) st1))"

record endpoint =
  http_method :: string  \<comment> \<open>the property \<open>method\<close>\<close>
  path :: string
  description :: string
  fullUrl :: string

definition baseUrl :: string where
  "baseUrl = ''https://api.mockman.online''"

definition collectionEndpoints :: "string \<Rightarrow> string \<Rightarrow> collection \<Rightarrow> endpoint list" where
  "collectionEndpoints base k c =
     [\<lparr>http_method = ''GET'',
       path = ''/collections/'' @ k,
       description = ''Get all collections'',
       fullUrl = base @ ''/collections/'' @ k\<rparr>,
      \<lparr>http_method = ''GET'',
       path = ''/collections/'' @ k @ ''/by-name/'' @ collectionName c,
       description = ''Get collection by name'',
       fullUrl = base @ ''/collections/'' @ k @ ''/by-name/'' @ collectionName c\<rparr>,
      \<lparr>http_method = ''GET'',
       path = ''/collections/'' @ k @ ''/'' @ collection_id c,
       description = ''Get collection by ID'',
       fullUrl = base @ ''/collections/'' @ k @ ''/'' @ collection_id c\<rparr>]"

definition documentEndpoints :: "string \<Rightarrow> string \<Rightarrow> collection \<Rightarrow> endpoint list" where
  "documentEndpoints base k c =
     [\<lparr>http_method = ''POST'',
       path = ''/collections/'' @ k @ ''/'' @ collection_id c @ ''/documents'',
       description = ''Add documents'',
       fullUrl = base @ ''/collections/'' @ k @ ''/'' @ collection_id c @ ''/documents''\<rparr>,
      \<lparr>http_method = ''GET'',
       path = ''/collections/'' @ k @ ''/'' @ collection_id c @ ''/documents'',
       description = ''Get all documents'',
       fullUrl = base @ ''/collections/'' @ k @ ''/'' @ collection_id c @ ''/documents''\<rparr>,
      \<lparr>http_method = ''GET'',
       path = ''/collections/'' @ k @ ''/'' @ collection_id c @ ''/documents/:documentId'',
       description = ''Get document by ID'',
       fullUrl = base @ ''/collections/'' @ k @ ''/'' @ collection_id c
                 @ ''/documents/:documentId''\<rparr>,
      \<lparr>http_method = ''PUT'',
       path = ''/collections/'' @ k @ ''/'' @ collection_id c @ ''/documents/:documentId'',
       description = ''Update document by ID'',
       fullUrl = base @ ''/collections/'' @ k @ ''/'' @ collection_id c
                 @ ''/documents/:documentId''\<rparr>,
      \<lparr>http_method = ''DELETE'',
       path = ''/collections/'' @ k @ ''/'' @ collection_id c @ ''/documents/:documentId'',
       description = ''Delete document by ID'',
       fullUrl = base @ ''/collections/'' @ k @ ''/'' @ collection_id c
                 @ ''/documents/:documentId''\<rparr>,
      \<lparr>http_method = ''DELETE'',
       path = ''/collections/'' @ k @ ''/'' @ collection_id c @ ''/documents'',
       description = ''Delete all documents'',
       fullUrl = base @ ''/collections/'' @ k @ ''/'' @ collection_id c @ ''/documents''\<rparr>]"

fun escapeChar :: "char \<Rightarrow> string" where
  "escapeChar c =
     (if c = CHR ''&'' then ''&amp;''
      else if c = CHR ''<'' then ''&lt;''
      else if c = CHR ''>'' then ''&gt;''
      else if c = CHR 0x22 then ''&quot;''
      else if c = CHR 0x27 then ''&#039;''
      else [c])"

definition escapeHtml :: "string \<Rightarrow> string" where
  "escapeHtml unsafe = concat (map escapeChar unsafe)"

text \<open>
  The content of \<open>dynamicEndpoints\<close> in the panel, and what the panel's script does to
  it on a message: for \<open>endpoints\<close>, the section \<open>Collection Level\<close> and then the section
  \<open>Document Level\<close>, each with its descriptors in order.
\<close>

datatype dynamicEndpoints =
    Sections "(string \<times> endpoint list) list"
  | ErrorBox string

definition endpoints_onmessage ::
  "string \<Rightarrow> host_message \<Rightarrow> dynamicEndpoints \<Rightarrow> dynamicEndpoints" where
  "endpoints_onmessage base msg shown =
     (case msg of
        Endpoints c k \<Rightarrow>
          Sections [(''Collection Level'', collectionEndpoints base k c),
                    (''Document Level'', documentEndpoints base k c)]
      | EndpointsError m \<Rightarrow> ErrorBox (escapeHtml m)
      | _ \<Rightarrow> shown)"

text \<open>The descriptors of a rendered panel, in the order they are shown.\<close>

fun descriptors :: "dynamicEndpoints \<Rightarrow> endpoint list" where
  "descriptors (Sections ss) = concat (map snd ss)"
| "descriptors (ErrorBox m) = []"

section \<open>The template browser\<close>

text \<open>
  The outcomes of the requests a message may lead to. A resolved response whose body is
  \<open>null\<close> or \<open>undefined\<close> where the handler reads a property of it is \<open>None\<close>: the read
  throws a \<open>TypeError\<close> inside the \<open>try\<close>, with the message \<open>type_error_message\<close>.
\<close>

record network =
  templates_result :: "template list option response"
  preview_result :: "string response"
  create_result :: "created option option response"
  type_error_message :: string

definition showLoginError :: "extension \<Rightarrow> extension" where
  "showLoginError st =
     emit (PostMessage (Error ''Please login first (MockMan: Login).''))
       (emit (ShowErrorMessage (warning_sign @ '' Please login first (MockMan: Login).'')) st)"

definition handleError :: "axios_error \<Rightarrow> string \<Rightarrow> extension \<Rightarrow> extension" where
  "handleError error action st =
     (let errorMessage = or_else (response_message error) (message error)
      in emit (PostMessage (Error errorMessage))
           (emit (ShowErrorMessage (''Error '' @ action @ '': '' @ errorMessage)) st))"

definition type_error :: "network \<Rightarrow> axios_error" where
  "type_error net = \<lparr>message = type_error_message net, response_message = None\<rparr>"

definition templates_url :: "string \<Rightarrow> string" where
  "templates_url k = ''https://api.mockman.online/templates/'' @ k"

definition preview_url :: "string \<Rightarrow> string \<Rightarrow> string" where
  "preview_url k cat = ''https://api.mockman.online/templates/'' @ k @ ''/'' @ cat @ ''/preview''"

definition create_url :: "string \<Rightarrow> string" where
  "create_url k = ''https://api.mockman.online/templates/'' @ k @ ''/create''"

definition getTemplates :: "network \<Rightarrow> string option \<Rightarrow> extension \<Rightarrow> extension" where
  "getTemplates net k st =
     (case credential k of
        None \<Rightarrow> showLoginError st
      | Some key \<Rightarrow>
          let st1 = emit (AxiosGet (templates_url key) 5000) st
          in (case templates_result net of
                Resolved (Some ts) \<Rightarrow> emit (PostMessage (Templates ts)) st1
              | Resolved None \<Rightarrow> handleError (type_error net) ''fetching templates'' st1
              | Rejected error \<Rightarrow> handleError error ''fetching templates'' st1))"

definition getPreview :: "network \<Rightarrow> string option \<Rightarrow> string \<Rightarrow> extension \<Rightarrow> extension" where
  "getPreview net k cat st =
     (case credential k of
        None \<Rightarrow> showLoginError st
      | Some key \<Rightarrow>
          let st1 = emit (AxiosGet (preview_url key cat) 5000) st
          in (case preview_result net of
                Resolved data \<Rightarrow> emit (PostMessage (Preview data)) st1
              | Rejected error \<Rightarrow> handleError error ''fetching preview'' st1))"

definition createCollection ::
  "network \<Rightarrow> string option \<Rightarrow> string \<Rightarrow> int \<Rightarrow> extension \<Rightarrow> extension" where
  "createCollection net k cat count st =
     (case credential k of
        None \<Rightarrow> showLoginError st
      | Some key \<Rightarrow>
          let st1 = emit (AxiosPost (create_url key) cat count 10000) st
          in (case create_result net of
                Resolved data \<Rightarrow>
                  let st2 = emit (PostMessage (CreateSuccess data)) st1
                  in (case data of
                        Some (Some c) \<Rightarrow>
                          emit (ExecuteCommand ''mockman.refresh'')
                            (emit (ShowInformationMessage
                                     (check_mark @ '' Collection '' @ [CHR 0x22] @ name c
                                      @ [CHR 0x22] @ '' created with '' @ documentCount c
                                      @ '' documents'')) st2)
                      | _ \<Rightarrow> handleError (type_error net) ''creating collection'' st2)
              | Rejected error \<Rightarrow> handleError error ''creating collection'' st1))"

text \<open>The handler of the messages the template panel posts to the host.\<close>

definition onDidReceiveMessage :: "network \<Rightarrow> web_message \<Rightarrow> extension \<Rightarrow> extension" where
  "onDidReceiveMessage net msg st =
     (case getApiKey st of (k, st1) \<Rightarrow>
        (case msg of
           Login \<Rightarrow> emit (ExecuteCommand ''mockman.login'') st1
         | GetTemplatesRequest \<Rightarrow> getTemplates net k st1
         | GetPreview cat \<Rightarrow> getPreview net k cat st1
         | CreateCollection cat count \<Rightarrow> createCollection net k cat count st1
         | ShowInfo m \<Rightarrow> emit (ShowInformationMessage m) st1
         | ShowError m \<Rightarrow> emit (ShowErrorMessage m) st1))"

subsection \<open>The create button\<close>

text \<open>
  The two variants of the panel differ in the largest record count they accept, and the
  second also shows the loader.
\<close>

datatype variant = First | Second

fun maxCount :: "variant \<Rightarrow> int" where
  "maxCount First = 500"
| "maxCount Second = 1000"

fun range_message :: "variant \<Rightarrow> string" where
  "range_message First = ''Please select a template and enter a valid row count (1-500).''"
| "range_message Second = ''Please select a template and enter a valid row count (1-1000).''"

record createBtn =
  disabled :: bool
  btn_loading :: bool
  createText :: string
  createLoader_shown :: bool

text \<open>
  The click handler, given the value of the template select and what \<open>parseInt\<close> made of
  the row count (\<open>None\<close> is \<open>NaN\<close>, which fails every comparison). It returns the button
  and the message posted to the host.
\<close>

definition createBtn_click ::
  "variant \<Rightarrow> string \<Rightarrow> int option \<Rightarrow> createBtn \<Rightarrow> createBtn \<times> web_message" where
  "createBtn_click v cat count btn =
     (case count of
        None \<Rightarrow> (btn, ShowError (range_message v))
      | Some n \<Rightarrow>
          if cat \<noteq> [] \<and> 1 \<le> n \<and> n \<le> maxCount v
          then (btn\<lparr>disabled := True, btn_loading := True, createText := ''Creating...'',
                    createLoader_shown := (createLoader_shown btn \<or> v = Second)\<rparr>,
                CreateCollection cat n)
          else (btn, ShowError (range_message v)))"

text \<open>A click, followed by the host's handling of the message the click posted.\<close>

definition click_create ::
  "variant \<Rightarrow> network \<Rightarrow> string \<Rightarrow> int option \<Rightarrow> createBtn \<Rightarrow> extension \<Rightarrow> extension" where
  "click_create v net cat count btn st =
     onDidReceiveMessage net (snd (createBtn_click v cat count btn)) st"

section \<open>Observations on a trace\<close>

definition is_error_report :: "event \<Rightarrow> bool" where
  "is_error_report e = (case e of ShowErrorMessage m \<Rightarrow> True | _ \<Rightarrow> False)"

definition is_post :: "event \<Rightarrow> bool" where
  "is_post e = (case e of AxiosPost url cat n t \<Rightarrow> True | _ \<Rightarrow> False)"

text \<open>The two events of the notice that asks the user to log in.\<close>

definition login_notice :: "event list" where
  "login_notice =
     [ShowErrorMessage (warning_sign @ '' Please login first (MockMan: Login).''),
      PostMessage (Error ''Please login first (MockMan: Login).'')]"

text \<open>
  The text a failed request is reported with, stated case by case: the message of the
  server's response when there is one and it is not empty, the error's own message
  otherwise.
\<close>

definition reported :: "axios_error \<Rightarrow> string" where
  "reported e =
     (case response_message e of
        None \<Rightarrow> message e
      | Some m \<Rightarrow> if m = [] then message e else m)"

section \<open>Sample values\<close>

text \<open>
  A parser for query strings without escapes: the pairs between \<open>&\<close>, each cut at its
  first \<open>=\<close>.
\<close>

fun split_on :: "char \<Rightarrow> string \<Rightarrow> string list" where
  "split_on c [] = [[]]"
| "split_on c (x # xs) =
     (if x = c then [] # split_on c xs
      else (case split_on c xs of [] \<Rightarrow> [[x]] | y # ys \<Rightarrow> (x # y) # ys))"

definition plain_params :: "string \<Rightarrow> (string \<times> string) list" where
  "plain_params q =
     map (\<lambda>p. (takeWhile (\<lambda>c. c \<noteq> CHR ''='') p, drop 1 (dropWhile (\<lambda>c. c \<noteq> CHR ''='') p)))
       (filter (\<lambda>p. p \<noteq> []) (split_on CHR ''&'' q))"

definition users :: collection where
  "users = \<lparr>collectionName = ''Users'', collection_id = ''c1'',
            collection_fields = [\<lparr>fieldName = ''name'', fieldType = ''string''\<rparr>,
                                 \<lparr>fieldName = ''age'', fieldType = ''number''\<rparr>]\<rparr>"

definition users_again :: collection where
  "users_again = \<lparr>collectionName = ''Users'', collection_id = ''c2'',
                  collection_fields = [\<lparr>fieldName = ''email'', fieldType = ''string''\<rparr>]\<rparr>"

definition users_node :: treeItem where
  "users_node = collection_item users"

definition logged_in :: extension where
  "logged_in = \<lparr>apiKey = Some ''abc123'', collections = JArr [users, users_again],
                secrets = Some ''abc123'', configuration = Some ''abc123'', panel = True,
                trace = []\<rparr>"

definition logged_out :: extension where
  "logged_out = \<lparr>apiKey = None, collections = JArr [users], secrets = None,
                 configuration = None, panel = True, trace = []\<rparr>"

definition timeout_error :: axios_error where
  "timeout_error = \<lparr>message = ''timeout of 5000ms exceeded'', response_message = None\<rparr>"

definition server_error :: axios_error where
  "server_error = \<lparr>message = ''Request failed with status code 401'',
                    response_message = Some ''Invalid API key''\<rparr>"

definition failing :: network where
  "failing = \<lparr>templates_result = Rejected server_error, preview_result = Rejected timeout_error,
              create_result = Rejected server_error, type_error_message = ''TypeError''\<rparr>"

definition fresh_button :: createBtn where
  "fresh_button = \<lparr>disabled = False, btn_loading = False, createText = ''Create Collection'',
                    createLoader_shown = False\<rparr>"

section \<open>Facts about the credential\<close>

lemma credential_truthy: "credential k = None \<longleftrightarrow> \<not> truthy k"
  by (cases k) auto

lemma credential_Some: "credential k = Some key \<longleftrightarrow> k = Some key \<and> key \<noteq> []"
  by (cases k) auto

lemma getApiKey_credential:
  "credential (fst (getApiKey st)) =
     (case credential (apiKey st) of Some key \<Rightarrow> Some key | None \<Rightarrow> credential (secrets st))"
  by (cases "apiKey st") (auto simp: getApiKey_def)

lemma getApiKey_trace: "trace (snd (getApiKey st)) = trace st"
  by (simp add: getApiKey_def)

section \<open>Refreshing the snapshot\<close>

lemma refresh_credential:
  assumes "credential (fst (getApiKey st)) = Some key"
  shows "refresh http st =
     emit Fire
       (case http of
          Resolved data \<Rightarrow>
            (emit (AxiosGet (collections_url key) 5000) (snd (getApiKey st)))
              \<lparr>collections := (if truthy_body data then data else JArr [])\<rparr>
        | Rejected error \<Rightarrow>
            (emit (ShowErrorMessage (''Error fetching collections: '' @ message error))
               (emit (AxiosGet (collections_url key) 5000) (snd (getApiKey st))))
              \<lparr>collections := JArr []\<rparr>)"
  using assms by (simp add: refresh_def Let_def case_prod_beta)

lemma refresh_none:
  assumes "credential (fst (getApiKey st)) = None"
  shows "refresh http st = emit Fire ((snd (getApiKey st))\<lparr>collections := JArr []\<rparr>)"
  using assms by (simp add: refresh_def case_prod_beta)

lemma refresh_keeps:
  "secrets (refresh http st) = secrets st \<and> configuration (refresh http st) = configuration st
   \<and> panel (refresh http st) = panel st"
  by (cases http)
     (auto simp: refresh_def getApiKey_def emit_def Let_def split: option.splits)

lemma refresh_apiKey: "truthy (apiKey st) \<Longrightarrow> apiKey (refresh http st) = apiKey st"
  by (cases http)
     (auto simp: refresh_def getApiKey_def emit_def Let_def split: option.splits)

text \<open>
  C4. When no credential is stored (neither the cached key nor the secret storage holds
  a non-empty key), \<open>refresh\<close> sets the snapshot to the empty sequence and does nothing
  else but fire the change notification: no request is issued and no error is shown.
\<close>

theorem refresh_no_credential:
  assumes "credential (apiKey st) = None" and "credential (secrets st) = None"
  shows "collections (refresh http st) = JArr []
       \<and> trace (refresh http st) = trace st @ [Fire]"
proof -
  from assms have g: "getApiKey st = (secrets st, st\<lparr>apiKey := secrets st\<rparr>)"
    by (simp add: getApiKey_def credential_truthy)
  show ?thesis using assms(2) by (simp add: refresh_def g emit_def)
qed

theorem refresh_no_credential_witness:
  "collections (refresh (Rejected \<lparr>message = ''timeout'', response_message = None\<rparr>)
       \<lparr>apiKey = None, collections = JObj, secrets = Some [], configuration = None,
        panel = False, trace = [ShowInformationMessage ''hello'']\<rparr>) = JArr []
   \<and> trace (refresh (Rejected \<lparr>message = ''timeout'', response_message = None\<rparr>)
       \<lparr>apiKey = None, collections = JObj, secrets = Some [], configuration = None,
        panel = False, trace = [ShowInformationMessage ''hello'']\<rparr>)
     = [ShowInformationMessage ''hello'', Fire]"
  using refresh_no_credential [of "\<lparr>apiKey = None, collections = JObj, secrets = Some [],
      configuration = None, panel = False, trace = [ShowInformationMessage ''hello'']\<rparr>"
      "Rejected \<lparr>message = ''timeout'', response_message = None\<rparr>"]
  by simp

text \<open>
  C3. Whatever the snapshot was, a \<open>refresh\<close> whose GET fails leaves the snapshot empty;
  the request is made only when there is a credential, and then the failure is reported
  by exactly one error message, between the request and the change notification.
\<close>

theorem refresh_failure:
  "collections (refresh (Rejected error) st) = JArr []
   \<and> (credential (fst (getApiKey st)) = Some key \<longrightarrow>
        trace (refresh (Rejected error) st) =
          trace st @ [AxiosGet (collections_url key) 5000,
                      ShowErrorMessage (''Error fetching collections: '' @ message error),
                      Fire]
        \<and> length (filter is_error_report
              (drop (length (trace st)) (trace (refresh (Rejected error) st)))) = 1)"
proof (cases "credential (fst (getApiKey st))")
  case None
  then show ?thesis by (simp add: refresh_none emit_def)
next
  case (Some k)
  then show ?thesis
    by (simp add: refresh_credential emit_def getApiKey_trace is_error_report_def)
qed

theorem refresh_failure_witness:
  "credential (fst (getApiKey logged_in)) = Some ''abc123''
   \<and> collections logged_in = JArr [users, users_again]
   \<and> collections (refresh (Rejected timeout_error) logged_in) = JArr []
   \<and> trace (refresh (Rejected timeout_error) logged_in) =
       [AxiosGet ''https://api.mockman.online/collections/abc123'' 5000,
        ShowErrorMessage ''Error fetching collections: timeout of 5000ms exceeded'',
        Fire]"
  using refresh_failure [of timeout_error logged_in "''abc123''"]
  by (simp add: logged_in_def timeout_error_def getApiKey_def collections_url_def)

text \<open>
  C5. When the GET of \<open>refresh\<close> succeeds, the snapshot becomes the response body, or the
  empty sequence when the body is falsy. On every path (no credential, success, failure)
  \<open>refresh\<close> only adds to the trace, adds exactly one change notification, and that
  notification is the last thing it does.
\<close>

theorem refresh_outcome:
  "(credential (fst (getApiKey st)) = Some key \<longrightarrow>
      collections (refresh (Resolved data) st) = (if truthy_body data then data else JArr []))
   \<and> prefix (trace st) (trace (refresh http st))
   \<and> count_list (drop (length (trace st)) (trace (refresh http st))) Fire = 1
   \<and> last (trace (refresh http st)) = Fire"
proof (cases "credential (fst (getApiKey st))")
  case None
  then show ?thesis by (simp add: refresh_none emit_def getApiKey_trace)
next
  case (Some k)
  then show ?thesis
    by (cases http) (simp_all add: refresh_credential emit_def getApiKey_trace)
qed

theorem refresh_outcome_witness:
  "credential (fst (getApiKey logged_in)) = Some ''abc123''
   \<and> collections (refresh (Resolved (JArr [users])) logged_in) = JArr [users]
   \<and> collections (refresh (Resolved JNull) logged_in) = JArr []
   \<and> count_list (trace (refresh (Resolved JNull) logged_in)) Fire = 1
   \<and> last (trace (refresh (Resolved JNull) logged_in)) = Fire"
  using refresh_outcome [of logged_in "''abc123''" "JArr [users]" "Resolved JNull"]
    refresh_outcome [of logged_in "''abc123''" JNull "Resolved JNull"]
  by (simp add: logged_in_def getApiKey_def)

text \<open>
  The third copy of the provider differs on the path without a key: it clears the
  snapshot and fires the notification as the others do, after showing an error message.
\<close>

lemma refresh_legacy_no_key:
  "trace (refresh_legacy http (st\<lparr>configuration := None\<rparr>)) =
     trace st @ [ShowErrorMessage (warning_sign @ '' Please login first (MockMan: Login).''), Fire]
   \<and> collections (refresh_legacy http (st\<lparr>configuration := None\<rparr>)) = JArr []"
  by (simp add: refresh_legacy_def emit_def)

section \<open>The children of a tree node\<close>

lemma find_first_match:
  assumes "cs = pre @ c # post" and "P c" and "\<forall>p \<in> set pre. \<not> P p"
  shows "find P cs = Some c"
  using assms by (induction pre arbitrary: cs) auto

text \<open>
  C6. On a snapshot that is a list of collections, \<open>getChildren\<close> at the root gives one
  collapsed item for each collection, in order, labelled with its name and carrying the
  command \<open>mockman.showEndpoints\<close> with the collection as its argument. At a node it gives
  one item that cannot be expanded for each field of the first collection whose name is
  the node's label, labelled \<open>name (type)\<close>, in order; and the empty list when no
  collection has that name.
\<close>

theorem getChildren_tree:
  assumes "collections st = JArr cs"
  shows "(\<exists>items. getChildren None st = Inr items
            \<and> length items = length cs
            \<and> map label items = map collectionName cs
            \<and> map collapsible items = replicate (length cs) Collapsed
            \<and> map item_command items =
                map (\<lambda>c. Some \<lparr>command = ''mockman.showEndpoints'', title = ''Show Endpoints'',
                                arguments = [c]\<rparr>) cs)
       \<and> (cs = pre @ c # post \<and> collectionName c = label el
            \<and> (\<forall>p \<in> set pre. collectionName p \<noteq> label el) \<longrightarrow>
            (\<exists>items. getChildren (Some el) st = Inr items
               \<and> map label items =
                   map (\<lambda>f. fieldName f @ '' ('' @ fieldType f @ '')'') (collection_fields c)
               \<and> map collapsible items = replicate (length (collection_fields c)) TreeNone))
       \<and> ((\<forall>c \<in> set cs. collectionName c \<noteq> label el) \<longrightarrow> getChildren (Some el) st = Inr [])"
proof (intro conjI impI)
  show "\<exists>items. getChildren None st = Inr items
            \<and> length items = length cs
            \<and> map label items = map collectionName cs
            \<and> map collapsible items = replicate (length cs) Collapsed
            \<and> map item_command items =
                map (\<lambda>c. Some \<lparr>command = ''mockman.showEndpoints'', title = ''Show Endpoints'',
                                arguments = [c]\<rparr>) cs"
    using assms
    by (simp add: getChildren_def collection_item_def MockmanTreeItem_def comp_def map_replicate_const)
next
  assume h: "cs = pre @ c # post \<and> collectionName c = label el
            \<and> (\<forall>p \<in> set pre. collectionName p \<noteq> label el)"
  then have "find (\<lambda>col. collectionName col = label el) cs = Some c"
    by (intro find_first_match [where pre = pre and post = post]) auto
  then show "\<exists>items. getChildren (Some el) st = Inr items
               \<and> map label items =
                   map (\<lambda>f. fieldName f @ '' ('' @ fieldType f @ '')'') (collection_fields c)
               \<and> map collapsible items = replicate (length (collection_fields c)) TreeNone"
    using assms
    by (simp add: getChildren_def field_item_def MockmanTreeItem_def comp_def map_replicate_const)
next
  assume "\<forall>c \<in> set cs. collectionName c \<noteq> label el"
  then have "find (\<lambda>col. collectionName col = label el) cs = None"
    by (simp add: find_None_iff)
  then show "getChildren (Some el) st = Inr []"
    using assms by (simp add: getChildren_def)
qed

theorem getChildren_tree_witness:
  "collections logged_in = JArr ([] @ users # [users_again])
   \<and> collectionName users = label users_node
   \<and> (\<exists>items. getChildren None logged_in = Inr items
         \<and> map label items = [''Users'', ''Users''])
   \<and> (\<exists>items. getChildren (Some users_node) logged_in = Inr items
         \<and> map label items = [''name (string)'', ''age (number)''])"
proof -
  have c: "collections logged_in = JArr [users, users_again]"
    by (simp add: logged_in_def)
  have l: "collectionName users = label users_node"
    by (simp add: users_node_def collection_item_def MockmanTreeItem_def)
  have u: "[users, users_again] = [] @ users # [users_again]" by simp
  note t = getChildren_tree [OF c, of "[]" users "[users_again]" users_node]
  from t have "\<exists>items. getChildren None logged_in = Inr items
         \<and> map label items = map collectionName [users, users_again]"
    by blast
  then have root: "\<exists>items. getChildren None logged_in = Inr items
         \<and> map label items = [''Users'', ''Users'']"
    by (simp add: users_def users_again_def)
  from t u l have "\<exists>items. getChildren (Some users_node) logged_in = Inr items
         \<and> map label items
            = map (\<lambda>f. fieldName f @ '' ('' @ fieldType f @ '')'') (collection_fields users)"
    by auto
  then have node: "\<exists>items. getChildren (Some users_node) logged_in = Inr items
         \<and> map label items = [''name (string)'', ''age (number)'']"
    by (simp add: users_def)
  from c l root node show ?thesis by simp
qed

section \<open>Keys accepted by the URI callback\<close>

lemma white_space_not_hex:
  "list_all (\<lambda>w. \<not> lower_hex (hd w) \<and> \<not> lower_hex (last w) \<and> w \<noteq> []) white_space"
  by (simp add: white_space_def lower_hex_def)

lemma lower_hex_not_white:
  "w \<in> set white_space \<Longrightarrow> \<not> lower_hex (hd w) \<and> \<not> lower_hex (last w) \<and> w \<noteq> []"
  using white_space_not_hex by (simp add: list_all_iff)

lemma find_prefix_hex:
  assumes "list_all lower_hex s"
  shows "find (\<lambda>w. prefix w s) white_space = None"
proof -
  { fix w assume w: "w \<in> set white_space" and p: "prefix w s"
    from w have nh: "\<not> lower_hex (hd w)" and ne: "w \<noteq> []"
      using lower_hex_not_white by blast+
    from p ne obtain t where "s = w @ t" by (auto simp: prefix_def)
    with ne have "hd w \<in> set s" by (cases w) auto
    with assms nh have False by (auto simp: list_all_iff) }
  then show ?thesis by (auto simp: find_None_iff)
qed

lemma find_suffix_hex:
  assumes "list_all lower_hex s"
  shows "find (\<lambda>w. suffix w s) white_space = None"
proof -
  { fix w assume w: "w \<in> set white_space" and p: "suffix w s"
    from w have nh: "\<not> lower_hex (last w)" and ne: "w \<noteq> []"
      using lower_hex_not_white by blast+
    from p ne obtain t where "s = t @ w" by (auto simp: suffix_def)
    with ne have "last w \<in> set s" by auto
    with assms nh have False by (auto simp: list_all_iff) }
  then show ?thesis by (auto simp: find_None_iff)
qed

lemma trim_hex: "hex_test k \<Longrightarrow> trim k = k"
  by (simp add: trim_def hex_test_def trimStart.simps [of k] trimEnd.simps [of k]
      find_prefix_hex find_suffix_hex)

lemma handleUri_accept:
  assumes "uri_path u = ''/callback''"
    and "searchParams_get (parse (uri_query u)) ''apikey'' = Some k"
    and "hex_test k"
  shows "handleUri parse se ue http u st = save_key se ue http k st"
  using assms by (auto simp: handleUri_def hex_test_def)

lemma params_bad: "searchParams_get (plain_params ''apikey=12g4'') ''apikey'' = Some ''12g4''"
  by (simp add: plain_params_def searchParams_get_def)

lemma params_good: "searchParams_get (plain_params ''apikey=abc123'') ''apikey'' = Some ''abc123''"
  by (simp add: plain_params_def searchParams_get_def)

lemma hex_good: "hex_test ''abc123''"
  by (simp add: hex_test_def lower_hex_def)

text \<open>
  C1. A callback URI changes the state only when its path is \<open>/callback\<close> and its
  \<open>apikey\<close> parameter is non-empty lowercase hexadecimal. Every other URI leaves the
  secret storage, the cached key, the configuration and the snapshot as they were and
  shows one error message. An accepted key whose two writes succeed is stored, cached,
  written to the configuration, reported as saved, and followed by a refresh. The keys
  \<open>ABC123\<close>, the empty key and \<open>12g4\<close> fail the pattern.
\<close>

theorem handleUri_gate:
  "(\<not> (uri_path u = ''/callback''
        \<and> (\<exists>k. searchParams_get (parse (uri_query u)) ''apikey'' = Some k \<and> hex_test k)) \<longrightarrow>
      (\<exists>m. (m = warning_sign @ '' Invalid redirect path.''
             \<or> m = warning_sign @ '' Invalid API Key format.'')
           \<and> handleUri parse store_error update_error http u st = emit (ShowErrorMessage m) st))
   \<and> (secrets (handleUri parse store_error update_error http u st) \<noteq> secrets st
        \<or> apiKey (handleUri parse store_error update_error http u st) \<noteq> apiKey st
        \<or> configuration (handleUri parse store_error update_error http u st) \<noteq> configuration st
        \<or> collections (handleUri parse store_error update_error http u st) \<noteq> collections st \<longrightarrow>
      uri_path u = ''/callback''
      \<and> (\<exists>k. searchParams_get (parse (uri_query u)) ''apikey'' = Some k \<and> hex_test k))
   \<and> (uri_path u = ''/callback''
        \<and> searchParams_get (parse (uri_query u)) ''apikey'' = Some k \<and> hex_test k \<longrightarrow>
      handleUri parse None None http u st =
        refresh http
          (emit (ShowInformationMessage (check_mark @ '' API Key saved successfully!''))
             (st\<lparr>secrets := Some (trim k), apiKey := Some (trim k),
                  configuration := Some (trim k)\<rparr>)))
   \<and> \<not> hex_test ''ABC123'' \<and> \<not> hex_test [] \<and> \<not> hex_test ''12g4''"
proof (intro conjI impI)
  assume "\<not> (uri_path u = ''/callback''
        \<and> (\<exists>k. searchParams_get (parse (uri_query u)) ''apikey'' = Some k \<and> hex_test k))"
  then show "\<exists>m. (m = warning_sign @ '' Invalid redirect path.''
             \<or> m = warning_sign @ '' Invalid API Key format.'')
           \<and> handleUri parse store_error update_error http u st = emit (ShowErrorMessage m) st"
    by (auto simp: handleUri_def split: option.splits)
next
  assume changed: "secrets (handleUri parse store_error update_error http u st) \<noteq> secrets st
        \<or> apiKey (handleUri parse store_error update_error http u st) \<noteq> apiKey st
        \<or> configuration (handleUri parse store_error update_error http u st) \<noteq> configuration st
        \<or> collections (handleUri parse store_error update_error http u st) \<noteq> collections st"
  have accepted: "uri_path u = ''/callback''
      \<and> (\<exists>k. searchParams_get (parse (uri_query u)) ''apikey'' = Some k \<and> hex_test k)"
  proof (rule ccontr)
    assume "\<not> (uri_path u = ''/callback''
        \<and> (\<exists>k. searchParams_get (parse (uri_query u)) ''apikey'' = Some k \<and> hex_test k))"
    then have "\<exists>m. handleUri parse store_error update_error http u st
        = emit (ShowErrorMessage m) st"
      by (auto simp: handleUri_def split: option.splits)
    with changed show False by (auto simp: emit_def)
  qed
  from accepted show "uri_path u = ''/callback''" by blast
  from accepted show "\<exists>k. searchParams_get (parse (uri_query u)) ''apikey'' = Some k \<and> hex_test k"
    by blast
next
  assume "uri_path u = ''/callback''
        \<and> searchParams_get (parse (uri_query u)) ''apikey'' = Some k \<and> hex_test k"
  then show "handleUri parse None None http u st =
        refresh http
          (emit (ShowInformationMessage (check_mark @ '' API Key saved successfully!''))
             (st\<lparr>secrets := Some (trim k), apiKey := Some (trim k),
                  configuration := Some (trim k)\<rparr>))"
    by (simp add: handleUri_accept save_key_def Let_def emit_def)
next
  show "\<not> hex_test ''ABC123''" by (simp add: hex_test_def lower_hex_def)
  show "\<not> hex_test []" by (simp add: hex_test_def)
  show "\<not> hex_test ''12g4''" by (simp add: hex_test_def lower_hex_def)
qed

theorem handleUri_gate_witness:
  "searchParams_get (plain_params ''apikey=12g4'') ''apikey'' = Some ''12g4''
   \<and> \<not> hex_test ''12g4''
   \<and> (\<exists>m. handleUri plain_params None None (Resolved (JArr [users]))
              \<lparr>uri_path = ''/callback'', uri_query = ''apikey=12g4''\<rparr> logged_out
            = emit (ShowErrorMessage m) logged_out)
   \<and> searchParams_get (plain_params ''apikey=abc123'') ''apikey'' = Some ''abc123''
   \<and> hex_test ''abc123''
   \<and> secrets (handleUri plain_params None None (Resolved (JArr [users]))
         \<lparr>uri_path = ''/callback'', uri_query = ''apikey=abc123''\<rparr> logged_out)
       = Some (trim ''abc123'')"
proof -
  let ?bad = "\<lparr>uri_path = ''/callback'', uri_query = ''apikey=12g4''\<rparr>"
  let ?good = "\<lparr>uri_path = ''/callback'', uri_query = ''apikey=abc123''\<rparr>"
  note bad = handleUri_gate [of ?bad plain_params None None "Resolved (JArr [users])"
      logged_out "''12g4''"]
  note good = handleUri_gate [of ?good plain_params None None "Resolved (JArr [users])"
      logged_out "''abc123''"]
  from bad have nh: "\<not> hex_test ''12g4''" by blast
  have "\<not> (uri_path ?bad = ''/callback''
        \<and> (\<exists>k. searchParams_get (plain_params (uri_query ?bad)) ''apikey'' = Some k \<and> hex_test k))"
    using nh by (simp add: params_bad)
  with bad have rej: "\<exists>m. handleUri plain_params None None (Resolved (JArr [users])) ?bad logged_out
            = emit (ShowErrorMessage m) logged_out"
    by blast
  have "uri_path ?good = ''/callback''
        \<and> searchParams_get (plain_params (uri_query ?good)) ''apikey'' = Some ''abc123''
        \<and> hex_test ''abc123''"
    by (simp add: params_good hex_good)
  with good have "handleUri plain_params None None (Resolved (JArr [users])) ?good logged_out =
        refresh (Resolved (JArr [users]))
          (emit (ShowInformationMessage (check_mark @ '' API Key saved successfully!''))
             (logged_out\<lparr>secrets := Some (trim ''abc123''), apiKey := Some (trim ''abc123''),
                  configuration := Some (trim ''abc123'')\<rparr>))"
    by blast
  then have acc: "secrets (handleUri plain_params None None (Resolved (JArr [users])) ?good logged_out)
       = Some (trim ''abc123'')"
    by (simp add: refresh_keeps emit_def)
  from nh rej acc show ?thesis by (simp add: params_bad params_good hex_good)
qed

text \<open>
  C9. On a key the handler accepts, \<open>trim\<close> is the identity, so the key written to the
  secret storage, the cached key and the key written to the configuration are the
  \<open>apikey\<close> parameter itself.
\<close>

theorem accepted_key_verbatim:
  assumes "uri_path u = ''/callback''"
    and "searchParams_get (parse (uri_query u)) ''apikey'' = Some k"
    and "hex_test k"
  shows "trim k = k
       \<and> secrets (handleUri parse None update_error http u st) = Some k
       \<and> apiKey (handleUri parse None update_error http u st) = Some k
       \<and> configuration (handleUri parse None None http u st) = Some k"
proof -
  from assms(3) have t: "trim k = k" by (rule trim_hex)
  from assms(3) have ne: "k \<noteq> []" by (simp add: hex_test_def)
  have h: "handleUri parse None ue http u st = save_key None ue http k st" for ue
    using assms by (rule handleUri_accept)
  show ?thesis
    using t ne
    by (cases update_error)
       (simp_all add: h save_key_def Let_def emit_def refresh_keeps refresh_apiKey)
qed

theorem accepted_key_verbatim_witness:
  "searchParams_get (plain_params ''apikey=abc123'') ''apikey'' = Some ''abc123''
   \<and> hex_test ''abc123''
   \<and> trim ''abc123'' = ''abc123''
   \<and> secrets (handleUri plain_params None None (Resolved (JArr [users]))
         \<lparr>uri_path = ''/callback'', uri_query = ''apikey=abc123''\<rparr> logged_out) = Some ''abc123''
   \<and> apiKey (handleUri plain_params None None (Resolved (JArr [users]))
         \<lparr>uri_path = ''/callback'', uri_query = ''apikey=abc123''\<rparr> logged_out) = Some ''abc123''
   \<and> configuration (handleUri plain_params None None (Resolved (JArr [users]))
         \<lparr>uri_path = ''/callback'', uri_query = ''apikey=abc123''\<rparr> logged_out) = Some ''abc123''"
  using accepted_key_verbatim [of "\<lparr>uri_path = ''/callback'', uri_query = ''apikey=abc123''\<rparr>"
      plain_params "''abc123''" None "Resolved (JArr [users])" logged_out]
  by (simp add: params_good hex_good)

section \<open>What the endpoints panel is sent and shows\<close>

text \<open>
  C10. \<open>updateContent\<close> posts nothing when no credential is stored or the panel is closed;
  and whenever it posts, it posts one \<open>endpoints\<close> message whose key is a non-empty
  string.
\<close>

theorem updateContent_guard:
  "((credential (apiKey st) = None \<and> credential (secrets st) = None) \<or> \<not> panel st \<longrightarrow>
       trace (updateContent c st) = trace st)
   \<and> (trace (updateContent c st) = trace st
        \<or> (\<exists>key. key \<noteq> [] \<and> fst (getApiKey st) = Some key
               \<and> trace (updateContent c st) = trace st @ [PostMessage (Endpoints c key)]))"
  by (cases "apiKey st"; cases "secrets st")
     (auto simp: updateContent_def getApiKey_def emit_def split: option.splits)

theorem updateContent_guard_witness:
  "credential (apiKey logged_out) = None \<and> credential (secrets logged_out) = None
   \<and> trace (updateContent users logged_out) = trace logged_out
   \<and> trace (updateContent users logged_in) = [PostMessage (Endpoints users ''abc123'')]"
  using updateContent_guard [of logged_out users]
  by (simp add: logged_out_def logged_in_def updateContent_def getApiKey_def emit_def)

text \<open>
  C2. The descriptors the panel shows for an \<open>endpoints\<close> message depend on the base
  host, the key and the collection only (not on what the panel showed before): the three
  collection-level descriptors and then the six document-level ones, in the order and
  with the methods, descriptions and paths below; every full URL is the base host
  followed by the path, with \<open>:documentId\<close> left as it is. For the key \<open>abc123\<close> and the
  collection \<open>c1\<close> named \<open>Users\<close>, the URL of the third descriptor is the base host
  followed by \<open>/collections/abc123/c1\<close>.
\<close>

theorem endpoint_catalog:
  "descriptors (endpoints_onmessage base (Endpoints c k) shown)
     = collectionEndpoints base k c @ documentEndpoints base k c
   \<and> map http_method (collectionEndpoints base k c) = [''GET'', ''GET'', ''GET'']
   \<and> map description (collectionEndpoints base k c)
       = [''Get all collections'', ''Get collection by name'', ''Get collection by ID'']
   \<and> map path (collectionEndpoints base k c)
       = [''/collections/'' @ k,
          ''/collections/'' @ k @ ''/by-name/'' @ collectionName c,
          ''/collections/'' @ k @ ''/'' @ collection_id c]
   \<and> map http_method (documentEndpoints base k c)
       = [''POST'', ''GET'', ''GET'', ''PUT'', ''DELETE'', ''DELETE'']
   \<and> map description (documentEndpoints base k c)
       = [''Add documents'', ''Get all documents'', ''Get document by ID'',
          ''Update document by ID'', ''Delete document by ID'', ''Delete all documents'']
   \<and> map path (documentEndpoints base k c)
       = [''/collections/'' @ k @ ''/'' @ collection_id c @ ''/documents'',
          ''/collections/'' @ k @ ''/'' @ collection_id c @ ''/documents'',
          ''/collections/'' @ k @ ''/'' @ collection_id c @ ''/documents/:documentId'',
          ''/collections/'' @ k @ ''/'' @ collection_id c @ ''/documents/:documentId'',
          ''/collections/'' @ k @ ''/'' @ collection_id c @ ''/documents/:documentId'',
          ''/collections/'' @ k @ ''/'' @ collection_id c @ ''/documents'']
   \<and> map fullUrl (collectionEndpoints base k c @ documentEndpoints base k c)
       = map (\<lambda>e. base @ path e) (collectionEndpoints base k c @ documentEndpoints base k c)
   \<and> fullUrl (descriptors (endpoints_onmessage base
          (Endpoints \<lparr>collectionName = ''Users'', collection_id = ''c1'', collection_fields = fs\<rparr>
             ''abc123'') shown) ! 2)
       = base @ ''/collections/abc123/c1''
   \<and> fullUrl (descriptors (endpoints_onmessage baseUrl
          (Endpoints \<lparr>collectionName = ''Users'', collection_id = ''c1'', collection_fields = fs\<rparr>
             ''abc123'') shown) ! 2)
       = ''https://api.mockman.online/collections/abc123/c1''"
  by (simp add: endpoints_onmessage_def collectionEndpoints_def documentEndpoints_def
        baseUrl_def)

section \<open>Failures in the template browser\<close>

text \<open>
  C7. A click on the create button with no category selected, or with a record count
  that is not a number, is below 1 or is above the variant's maximum (500 or 1000),
  posts the range error and leaves the button as it was; the host then shows that error
  and issues no POST. A count within the range, with a category, posts
  \<open>createCollection\<close>. In particular the category \<open>person\<close> with the count 0 is rejected.
\<close>

theorem create_range_check:
  "(cat = [] \<or> count = None \<or> (\<exists>n. count = Some n \<and> (n < 1 \<or> maxCount v < n)) \<longrightarrow>
      createBtn_click v cat count btn = (btn, ShowError (range_message v))
      \<and> trace (click_create v net cat count btn st) = trace st @ [ShowErrorMessage (range_message v)]
      \<and> filter is_post (drop (length (trace st)) (trace (click_create v net cat count btn st))) = [])
   \<and> (cat \<noteq> [] \<and> 1 \<le> n \<and> n \<le> maxCount v \<longrightarrow>
      snd (createBtn_click v cat (Some n) btn) = CreateCollection cat n)
   \<and> snd (createBtn_click v ''person'' (Some 0) btn) = ShowError (range_message v)
   \<and> trace (click_create v net ''person'' (Some 0) btn st)
       = trace st @ [ShowErrorMessage (range_message v)]"
  by (auto simp: createBtn_click_def click_create_def onDidReceiveMessage_def emit_def
        getApiKey_def is_post_def split: option.splits)

theorem create_range_check_witness:
  "createBtn_click First ''person'' (Some 0) fresh_button
     = (fresh_button, ShowError ''Please select a template and enter a valid row count (1-500).'')
   \<and> trace (click_create First failing ''person'' (Some 0) fresh_button logged_in)
     = [ShowErrorMessage ''Please select a template and enter a valid row count (1-500).'']
   \<and> trace (click_create Second failing ''person'' (Some 1001) fresh_button logged_in)
     = [ShowErrorMessage ''Please select a template and enter a valid row count (1-1000).'']
   \<and> snd (createBtn_click Second ''person'' (Some 1000) fresh_button)
     = CreateCollection ''person'' 1000"
  using create_range_check [of "''person''" "Some 0" First fresh_button failing logged_in 1]
    create_range_check [of "''person''" "Some 1001" Second fresh_button failing logged_in 1000]
  by (simp add: logged_in_def)

lemma or_else_reported: "or_else (response_message e) (message e) = reported e"
  by (cases "response_message e") (auto simp: reported_def)

lemma onDidReceiveMessage_no_credential:
  assumes "credential (fst (getApiKey st)) = None"
    and "msg = GetTemplatesRequest \<or> msg = GetPreview cat \<or> msg = CreateCollection cat n"
  shows "trace (onDidReceiveMessage net msg st) = trace st @ login_notice"
  using assms
  by (auto simp: onDidReceiveMessage_def getTemplates_def getPreview_def createCollection_def
        showLoginError_def emit_def login_notice_def case_prod_beta getApiKey_trace)

lemma handleError_trace:
  "trace (handleError e action st) =
     trace st @ [ShowErrorMessage (''Error '' @ action @ '': '' @ reported e),
                 PostMessage (Error (reported e))]"
  by (simp add: handleError_def Let_def emit_def or_else_reported)

text \<open>
  C8. With no credential, each of the three operations of the template browser shows the
  notice to log in first and issues no request. With a credential, a request that fails
  is issued once and reported once, with the message of the server's response when there
  is one (and it is not empty), and with the error's own message otherwise.
\<close>

theorem template_browser_failures:
  "(credential (fst (getApiKey st)) = None \<longrightarrow>
      trace (onDidReceiveMessage net GetTemplatesRequest st) = trace st @ login_notice
      \<and> trace (onDidReceiveMessage net (GetPreview cat) st) = trace st @ login_notice
      \<and> trace (onDidReceiveMessage net (CreateCollection cat n) st) = trace st @ login_notice)
   \<and> (credential (fst (getApiKey st)) = Some key \<and> templates_result net = Rejected e \<longrightarrow>
      trace (onDidReceiveMessage net GetTemplatesRequest st) =
        trace st @ [AxiosGet (templates_url key) 5000,
                    ShowErrorMessage (''Error fetching templates: '' @ reported e),
                    PostMessage (Error (reported e))])
   \<and> (credential (fst (getApiKey st)) = Some key \<and> preview_result net = Rejected e \<longrightarrow>
      trace (onDidReceiveMessage net (GetPreview cat) st) =
        trace st @ [AxiosGet (preview_url key cat) 5000,
                    ShowErrorMessage (''Error fetching preview: '' @ reported e),
                    PostMessage (Error (reported e))])
   \<and> (credential (fst (getApiKey st)) = Some key \<and> create_result net = Rejected e \<longrightarrow>
      trace (onDidReceiveMessage net (CreateCollection cat n) st) =
        trace st @ [AxiosPost (create_url key) cat n 10000,
                    ShowErrorMessage (''Error creating collection: '' @ reported e),
                    PostMessage (Error (reported e))])
   \<and> (response_message e = Some m \<and> m \<noteq> [] \<longrightarrow> reported e = m)
   \<and> (response_message e = None \<or> response_message e = Some [] \<longrightarrow> reported e = message e)"
proof (intro conjI impI)
  assume "credential (fst (getApiKey st)) = None"
  then show "trace (onDidReceiveMessage net GetTemplatesRequest st) = trace st @ login_notice"
    and "trace (onDidReceiveMessage net (GetPreview cat) st) = trace st @ login_notice"
    and "trace (onDidReceiveMessage net (CreateCollection cat n) st) = trace st @ login_notice"
    by (simp_all add: onDidReceiveMessage_no_credential)
next
  assume "credential (fst (getApiKey st)) = Some key \<and> templates_result net = Rejected e"
  then show "trace (onDidReceiveMessage net GetTemplatesRequest st) =
        trace st @ [AxiosGet (templates_url key) 5000,
                    ShowErrorMessage (''Error fetching templates: '' @ reported e),
                    PostMessage (Error (reported e))]"
    by (simp add: onDidReceiveMessage_def getTemplates_def case_prod_beta Let_def
          handleError_trace emit_def getApiKey_trace)
next
  assume "credential (fst (getApiKey st)) = Some key \<and> preview_result net = Rejected e"
  then show "trace (onDidReceiveMessage net (GetPreview cat) st) =
        trace st @ [AxiosGet (preview_url key cat) 5000,
                    ShowErrorMessage (''Error fetching preview: '' @ reported e),
                    PostMessage (Error (reported e))]"
    by (simp add: onDidReceiveMessage_def getPreview_def case_prod_beta Let_def
          handleError_trace emit_def getApiKey_trace)
next
  assume "credential (fst (getApiKey st)) = Some key \<and> create_result net = Rejected e"
  then show "trace (onDidReceiveMessage net (CreateCollection cat n) st) =
        trace st @ [AxiosPost (create_url key) cat n 10000,
                    ShowErrorMessage (''Error creating collection: '' @ reported e),
                    PostMessage (Error (reported e))]"
    by (simp add: onDidReceiveMessage_def createCollection_def case_prod_beta Let_def
          handleError_trace emit_def getApiKey_trace)
next
  assume "response_message e = Some m \<and> m \<noteq> []"
  then show "reported e = m" by (simp add: reported_def)
next
  assume "response_message e = None \<or> response_message e = Some []"
  then show "reported e = message e" by (auto simp: reported_def)
qed

theorem template_browser_failures_witness:
  "credential (fst (getApiKey logged_out)) = None
   \<and> trace (onDidReceiveMessage failing (CreateCollection ''person'' 10) logged_out) = login_notice
   \<and> credential (fst (getApiKey logged_in)) = Some ''abc123''
   \<and> templates_result failing = Rejected server_error
   \<and> trace (onDidReceiveMessage failing GetTemplatesRequest logged_in)
     = [AxiosGet ''https://api.mockman.online/templates/abc123'' 5000,
        ShowErrorMessage ''Error fetching templates: Invalid API key'',
        PostMessage (Error ''Invalid API key'')]
   \<and> preview_result failing = Rejected timeout_error
   \<and> trace (onDidReceiveMessage failing (GetPreview ''person'') logged_in)
     = [AxiosGet ''https://api.mockman.online/templates/abc123/person/preview'' 5000,
        ShowErrorMessage ''Error fetching preview: timeout of 5000ms exceeded'',
        PostMessage (Error ''timeout of 5000ms exceeded'')]"
proof -
  have o: "credential (fst (getApiKey logged_out)) = None"
    by (simp add: logged_out_def getApiKey_def)
  have i: "credential (fst (getApiKey logged_in)) = Some ''abc123''"
    by (simp add: logged_in_def getApiKey_def)
  have t: "templates_result failing = Rejected server_error"
    and p: "preview_result failing = Rejected timeout_error"
    by (simp_all add: failing_def)
  have r: "reported server_error = ''Invalid API key''"
    "reported timeout_error = ''timeout of 5000ms exceeded''"
    by (simp_all add: reported_def server_error_def timeout_error_def)
  from o template_browser_failures [of logged_out failing "''person''" 10]
  have a: "trace (onDidReceiveMessage failing (CreateCollection ''person'' 10) logged_out)
      = login_notice"
    by (simp add: logged_out_def)
  from i t template_browser_failures [of logged_in failing "''person''" 10 "''abc123''" server_error]
  have b: "trace (onDidReceiveMessage failing GetTemplatesRequest logged_in)
     = trace logged_in @ [AxiosGet (templates_url ''abc123'') 5000,
        ShowErrorMessage (''Error fetching templates: '' @ reported server_error),
        PostMessage (Error (reported server_error))]"
    by blast
  from i p template_browser_failures [of logged_in failing "''person''" 10 "''abc123''" timeout_error]
  have c: "trace (onDidReceiveMessage failing (GetPreview ''person'') logged_in)
     = trace logged_in @ [AxiosGet (preview_url ''abc123'' ''person'') 5000,
        ShowErrorMessage (''Error fetching preview: '' @ reported timeout_error),
        PostMessage (Error (reported timeout_error))]"
    by blast
  from o i t p a b c show ?thesis
    by (simp add: r templates_url_def preview_url_def logged_in_def)
qed

end
